theory Spec2Isabelle
  imports Main
begin

section \<open>The AWS services registry of \<^verbatim>\<open>FastAPI/api.py\<close>\<close>

text \<open>
  The module keeps one process-wide list \<^verbatim>\<open>aws_services\<close> of dictionaries with the
  keys \<^verbatim>\<open>name\<close> and \<^verbatim>\<open>category\<close>, and four request handlers that read or mutate it.
  Each handler is modelled as a function that takes the current list and, where the
  handler mutates the list, returns the reply together with the list it leaves behind.
  A raised exception is the \<open>Inl\<close> branch of the reply.
\<close>

subsection \<open>Python text: \<^verbatim>\<open>str.lower\<close> and \<^verbatim>\<open>str.isdigit\<close>\<close>

text \<open>
  A Python \<^verbatim>\<open>str\<close> is a sequence of code points. It is modelled by \<^typ>\<open>string\<close>, each
  \<^typ>\<open>char\<close> standing for the code point of the same number, so the model covers the
  texts over U+0000 .. U+00FF. On these code points \<^verbatim>\<open>str.lower\<close> works character by
  character: it adds 32 to the upper-case letters U+0041 .. U+005A and U+00C0 .. U+00DE
  (U+00D7, the multiplication sign, is no letter) and leaves every other code point as
  it is. \<^verbatim>\<open>str.isdigit\<close> holds for a non-empty text all of whose characters are digits:
  U+0030 .. U+0039 and the superscripts U+00B2, U+00B3, U+00B9.
\<close>

definition lower_char :: "char \<Rightarrow> char" where
  "lower_char c =
     (let n = (of_char c :: nat)
      in if (65 \<le> n \<and> n \<le> 90) \<or> (192 \<le> n \<and> n \<le> 222 \<and> n \<noteq> 215)
         then char_of (n + 32) else c)"

definition lower :: "string \<Rightarrow> string" where
  "lower s = map lower_char s"

definition digit_char :: "char \<Rightarrow> bool" where
  "digit_char c =
     (let n = (of_char c :: nat)
      in (48 \<le> n \<and> n \<le> 57) \<or> n = 178 \<or> n = 179 \<or> n = 185)"

definition isdigit :: "string \<Rightarrow> bool" where
  "isdigit s = (s \<noteq> [] \<and> list_all digit_char s)"

subsection \<open>Records, exceptions and the seed list\<close>

record service =
  name :: string
  category :: string

text \<open>
  \<^verbatim>\<open>errors.py\<close> builds three \<^verbatim>\<open>HTTPException\<close> values that differ in their status
  code. \<^verbatim>\<open>list.pop\<close> raises \<^verbatim>\<open>IndexError\<close> for a position outside the list; it is kept
  as an exception of its own, so that a handler that could reach it would show it.
\<close>

datatype exception = HTTPException nat string | IndexError

definition not_found :: "string \<Rightarrow> exception" where
  "not_found detail = HTTPException 404 detail"

definition bad_request :: "string \<Rightarrow> exception" where
  "bad_request detail = HTTPException 400 detail"

definition conflict :: "string \<Rightarrow> exception" where
  "conflict detail = HTTPException 409 detail"

definition aws_services :: "service list" where
  "aws_services =
     [\<lparr>name = ''S3'', category = ''Storage''\<rparr>,
      \<lparr>name = ''Lambda'', category = ''Compute''\<rparr>,
      \<lparr>name = ''EC2'', category = ''Compute''\<rparr>,
      \<lparr>name = ''RDS'', category = ''Database''\<rparr>,
      \<lparr>name = ''DynamoDB'', category = ''Database''\<rparr>]"

subsection \<open>\<^verbatim>\<open>get_services\<close>\<close>

text \<open>
  The query parameters default to \<^verbatim>\<open>None\<close>. The tests \<^verbatim>\<open>if name:\<close> and
  \<^verbatim>\<open>if category:\<close> are Python truth tests: \<^verbatim>\<open>None\<close> and the empty text are both false.
\<close>

definition get_services :: "string option \<Rightarrow> string option \<Rightarrow> service list \<Rightarrow> service list" where
  "get_services name_q category_q services =
     (let results = services;
          results = (case name_q of
                       None \<Rightarrow> results
                     | Some n \<Rightarrow>
                         if n \<noteq> [] then filter (\<lambda>s. lower (name s) = lower n) results
                         else results);
          results = (case category_q of
                       None \<Rightarrow> results
                     | Some c \<Rightarrow>
                         if c \<noteq> [] then filter (\<lambda>s. lower (category s) = lower c) results
                         else results)
      in results)"

subsection \<open>\<^verbatim>\<open>add_service\<close>\<close>

text \<open>
  The payload is a \<^verbatim>\<open>ServiceCreate\<close> whose two fields are declared \<^verbatim>\<open>str\<close>, so both
  \<^verbatim>\<open>isinstance\<close> tests hold and the first guard is the emptiness of either field.
  The reply is paired with the list the handler leaves behind; on success the handler
  returns the list object itself, after the append.
\<close>

definition add_service :: "string \<Rightarrow> string \<Rightarrow> service list \<Rightarrow> (exception + service list) \<times> service list" where
  \<open>add_service nm cat services =
     (if nm = [] \<or> cat = []
      then (Inl (bad_request ''Missing or invalid "name" or "category" field''), services)
      else
        let existing_pairs = set (map (\<lambda>s. (lower (name s), lower (category s))) services)
        in if (lower nm, lower cat) \<in> existing_pairs
           then (Inl (conflict ''Service with same name and category already exists (case-insensitive)''), services)
           else if isdigit nm
           then (Inl (bad_request ''Service name must not be numeric only''), services)
           else (let services' = services @ [\<lparr>name = nm, category = cat\<rparr>]
                 in (Inr services', services')))\<close>

subsection \<open>\<^verbatim>\<open>delete_service\<close> and \<^verbatim>\<open>delete_service_exact\<close>\<close>

text \<open>
  Both handlers run the same loop over \<^verbatim>\<open>enumerate(aws_services)\<close>: it stops at the
  first element that passes the test and keeps its position. \<open>first_index\<close> is that
  loop, with the position of the head of the remaining list as its counter. The
  handlers differ in the test only. The log line written before the removal has no
  effect on the list or the reply and is left out.
\<close>

fun first_index :: "('a \<Rightarrow> bool) \<Rightarrow> 'a list \<Rightarrow> nat \<Rightarrow> nat option" where
  "first_index p [] idx = None"
| "first_index p (s # ss) idx = (if p s then Some idx else first_index p ss (Suc idx))"

definition pop :: "nat \<Rightarrow> 'a list \<Rightarrow> exception + 'a list" where
  "pop i xs = (if i < length xs then Inr (take i xs @ drop (Suc i) xs) else Inl IndexError)"

definition delete_service :: "string \<Rightarrow> service list \<Rightarrow> (exception + service list) \<times> service list" where
  "delete_service nm services =
     (case first_index (\<lambda>s. lower (name s) = lower nm) services 0 of
        None \<Rightarrow> (Inl (not_found ''Service not found''), services)
      | Some match_idx \<Rightarrow>
          (case pop match_idx services of
             Inl e \<Rightarrow> (Inl e, services)
           | Inr services' \<Rightarrow> (Inr services', services')))"

definition delete_service_exact :: "string \<Rightarrow> string \<Rightarrow> service list \<Rightarrow> (exception + service list) \<times> service list" where
  "delete_service_exact nm cat services =
     (case first_index (\<lambda>s. lower (name s) = lower nm \<and> lower (category s) = lower cat) services 0 of
        None \<Rightarrow> (Inl (not_found ''Service with specified name and category not found''), services)
      | Some match_idx \<Rightarrow>
          (case pop match_idx services of
             Inl e \<Rightarrow> (Inl e, services)
           | Inr services' \<Rightarrow> (Inr services', services')))"

subsection \<open>Requests and runs\<close>

text \<open>
  A request is one call of a handler. \<open>handle\<close> gives the reply and the list after
  the call; \<open>run\<close> serves a sequence of requests one after the other, whatever each
  reply is, as the process does.
\<close>

datatype request =
    List "string option" "string option"
  | Add string string
  | RemoveByName string
  | RemoveByNameAndCategory string string

fun handle :: "request \<Rightarrow> service list \<Rightarrow> (exception + service list) \<times> service list" where
  "handle (List name_q category_q) services = (Inr (get_services name_q category_q services), services)"
| "handle (Add nm cat) services = add_service nm cat services"
| "handle (RemoveByName nm) services = delete_service nm services"
| "handle (RemoveByNameAndCategory nm cat) services = delete_service_exact nm cat services"

definition run :: "request list \<Rightarrow> service list \<Rightarrow> service list" where
  "run reqs services = foldl (\<lambda>st r. snd (handle r st)) services reqs"

subsection \<open>Notions of the specification\<close>

text \<open>
  The specification compares texts case-insensitively: two texts are the same when
  \<^verbatim>\<open>lower\<close> gives the same result on both. \<open>pair_key\<close> is the identity of a record for
  uniqueness, the tuple that \<^verbatim>\<open>add_service\<close> collects in \<^verbatim>\<open>existing_pairs\<close>, and
  \<open>same_pair nm cat s\<close> says that the record \<open>s\<close> has the pair \<open>(nm, cat)\<close> under that
  comparison. \<open>list_spec\<close> is the listing as the specification words it: a filter that
  is given keeps the records whose field equals it, and \<open>given\<close> reads a query parameter
  the way the truth tests of \<^verbatim>\<open>get_services\<close> do, an empty text counting as absent.
  \<open>fields_nonempty\<close> and \<open>no_numeric_name\<close> are the two constraints of the data model
  on the records of a registry.
\<close>

definition pair_key :: "service \<Rightarrow> string \<times> string" where
  "pair_key s = (lower (name s), lower (category s))"

definition given :: "string option \<Rightarrow> string option" where
  "given q = (case q of None \<Rightarrow> None | Some t \<Rightarrow> if t = [] then None else Some t)"

definition list_spec :: "string option \<Rightarrow> string option \<Rightarrow> service list \<Rightarrow> service list" where
  "list_spec nameFilter categoryFilter registry =
     filter (\<lambda>s. (case nameFilter of None \<Rightarrow> True | Some n \<Rightarrow> lower (name s) = lower n) \<and>
                 (case categoryFilter of None \<Rightarrow> True | Some c \<Rightarrow> lower (category s) = lower c))
       registry"

definition same_pair :: "string \<Rightarrow> string \<Rightarrow> service \<Rightarrow> bool" where
  "same_pair nm cat s = (lower (name s) = lower nm \<and> lower (category s) = lower cat)"

definition fields_nonempty :: "service list \<Rightarrow> bool" where
  "fields_nonempty rs = list_all (\<lambda>s. name s \<noteq> [] \<and> category s \<noteq> []) rs"

definition no_numeric_name :: "service list \<Rightarrow> bool" where
  "no_numeric_name rs = list_all (\<lambda>s. \<not> isdigit (name s)) rs"

section \<open>Auxiliary facts\<close>

subsection \<open>Text\<close>

lemma pair_key_fun: "(\<lambda>s. (lower (name s), lower (category s))) = pair_key"
  by (rule ext) (simp add: pair_key_def)

lemma pair_key_record: "pair_key \<lparr>name = nm, category = cat\<rparr> = (lower nm, lower cat)"
  by (simp add: pair_key_def)

lemma digit_lower_char: "digit_char c \<Longrightarrow> lower_char c = c"
  by (auto simp: digit_char_def lower_char_def Let_def)

lemma lower_char_digit: "digit_char (lower_char c) \<Longrightarrow> digit_char c"
  by (auto simp: digit_char_def lower_char_def Let_def split: if_splits)

lemma lower_digits: "list_all digit_char s \<Longrightarrow> lower s = s"
  by (induction s) (simp_all add: lower_def digit_lower_char)

lemma digits_lower: "list_all digit_char (lower s) \<Longrightarrow> list_all digit_char s"
  by (induction s) (auto simp: lower_def lower_char_digit)

lemma isdigit_same_lower:
  assumes "isdigit n" and "lower s = lower n"
  shows "isdigit s"
proof -
  from assms(1) have n: "n \<noteq> []" "list_all digit_char n"
    by (simp_all add: isdigit_def)
  from n(2) assms(2) have eq: "lower s = n"
    by (simp add: lower_digits)
  with n(1) have "s \<noteq> []"
    by (auto simp: lower_def)
  moreover from eq n(2) have "list_all digit_char s"
    by (auto intro: digits_lower)
  ultimately show ?thesis
    by (simp add: isdigit_def)
qed

subsection \<open>The search loop and the removal\<close>

lemma first_index_None: "first_index p xs i = None \<longleftrightarrow> (\<forall>x\<in>set xs. \<not> p x)"
  by (induction xs arbitrary: i) auto

lemma first_index_Some:
  "first_index p xs i = Some j \<Longrightarrow>
     \<exists>pre x post. xs = pre @ x # post \<and> (\<forall>y\<in>set pre. \<not> p y) \<and> p x \<and> j = i + length pre"
proof (induction xs arbitrary: i)
  case Nil
  then show ?case by simp
next
  case (Cons a xs)
  show ?case
  proof (cases "p a")
    case True
    with Cons.prems have "j = i" by simp
    with True have "a # xs = [] @ a # xs \<and> (\<forall>y\<in>set []. \<not> p y) \<and> p a \<and> j = i + length ([]::'a list)"
      by simp
    then show ?thesis by blast
  next
    case False
    with Cons.prems have "first_index p xs (Suc i) = Some j" by simp
    from Cons.IH [OF this] obtain pre x post where
      "xs = pre @ x # post" "\<forall>y\<in>set pre. \<not> p y" "p x" "j = Suc i + length pre"
      by blast
    with False have "a # xs = (a # pre) @ x # post \<and> (\<forall>y\<in>set (a # pre). \<not> p y) \<and> p x \<and> j = i + length (a # pre)"
      by simp
    then show ?thesis by blast
  qed
qed

lemma pop_middle: "pop (length pre) (pre @ x # post) = Inr (pre @ post)"
  by (simp add: pop_def)

text \<open>The two removal handlers share their body up to the test and the message.\<close>

lemma removal_body:
  fixes p :: "'a \<Rightarrow> bool"
  defines "out \<equiv> \<lambda>e rs. (case first_index p rs 0 of
      None \<Rightarrow> (Inl e, rs)
    | Some i \<Rightarrow> (case pop i rs of Inl e' \<Rightarrow> (Inl e', rs) | Inr rs' \<Rightarrow> (Inr rs', rs')))"
  shows "((\<forall>s\<in>set rs. \<not> p s) \<and> out e rs = (Inl e, rs)) \<or>
   (\<exists>pre s post. rs = pre @ s # post \<and> (\<forall>t\<in>set pre. \<not> p t) \<and> p s \<and>
      out e rs = (Inr (pre @ post), pre @ post))"
proof (cases "first_index p rs 0")
  case None
  then have "\<forall>s\<in>set rs. \<not> p s"
    by (simp add: first_index_None)
  moreover from None have "out e rs = (Inl e, rs)"
    by (simp add: out_def)
  ultimately show ?thesis by blast
next
  case (Some i)
  from first_index_Some [OF Some] obtain pre s post where
    sp: "rs = pre @ s # post" "\<forall>t\<in>set pre. \<not> p t" "p s" "i = length pre"
    by auto
  from Some sp(1,4) have "out e rs = (Inr (pre @ post), pre @ post)"
    by (simp add: out_def pop_middle)
  with sp show ?thesis by blast
qed

subsection \<open>What one request does to the list\<close>

text \<open>
  A request leaves the list as it is, or appends one record that passed the three
  guards of \<^verbatim>\<open>add_service\<close>, or takes one record out.
\<close>

lemma handle_shape:
  "snd (handle r rs) = rs \<or>
   (\<exists>nm cat. nm \<noteq> [] \<and> cat \<noteq> [] \<and> (lower nm, lower cat) \<notin> pair_key ` set rs \<and> \<not> isdigit nm \<and>
      snd (handle r rs) = rs @ [\<lparr>name = nm, category = cat\<rparr>]) \<or>
   (\<exists>pre s post. rs = pre @ s # post \<and> snd (handle r rs) = pre @ post)"
proof (cases r)
  case (List n c)
  then show ?thesis by simp
next
  case (Add nm cat)
  then show ?thesis
    by (auto simp: add_service_def pair_key_fun Let_def)
next
  case (RemoveByName nm)
  from removal_body [where p = "\<lambda>s. lower (name s) = lower nm" and rs = rs
      and e = "not_found ''Service not found''"]
  show ?thesis unfolding RemoveByName handle.simps delete_service_def
    by (elim disjE conjE exE) (simp_all, blast)
next
  case (RemoveByNameAndCategory nm cat)
  from removal_body [where p = "\<lambda>s. lower (name s) = lower nm \<and> lower (category s) = lower cat"
      and rs = rs and e = "not_found ''Service with specified name and category not found''"]
  show ?thesis unfolding RemoveByNameAndCategory handle.simps delete_service_exact_def
    by (elim disjE conjE exE) (simp_all, blast)
qed

subsection \<open>Invariants of runs\<close>

text \<open>
  A property of the seed list that every request preserves holds after every run. The
  three properties of the data model are of this kind.
\<close>

lemma run_invariant:
  assumes "P st" and "\<And>r st. P st \<Longrightarrow> P (snd (handle r st))"
  shows "P (run reqs st)"
  using assms(1) unfolding run_def
  by (induction reqs arbitrary: st) (simp_all add: assms(2))

lemma handle_distinct: "distinct (map pair_key rs) \<Longrightarrow> distinct (map pair_key (snd (handle r rs)))"
  using handle_shape [of r rs] by (elim disjE exE conjE) (auto simp: pair_key_record)

lemma handle_no_numeric: "no_numeric_name rs \<Longrightarrow> no_numeric_name (snd (handle r rs))"
  using handle_shape [of r rs] by (elim disjE exE conjE) (auto simp: no_numeric_name_def)

lemma handle_fields_nonempty: "fields_nonempty rs \<Longrightarrow> fields_nonempty (snd (handle r rs))"
  using handle_shape [of r rs] by (elim disjE exE conjE) (auto simp: fields_nonempty_def)

lemma seed_distinct: "distinct (map pair_key aws_services)"
  by code_simp

lemma seed_no_numeric: "no_numeric_name aws_services"
  by code_simp

lemma seed_fields_nonempty: "fields_nonempty aws_services"
  by code_simp

lemma run_distinct: "distinct (map pair_key (run reqs aws_services))"
  by (rule run_invariant [where P = "\<lambda>rs. distinct (map pair_key rs)"]) (simp_all add: seed_distinct handle_distinct)

lemma run_no_numeric: "no_numeric_name (run reqs aws_services)"
  by (rule run_invariant) (simp_all add: seed_no_numeric handle_no_numeric)

lemma run_fields_nonempty: "fields_nonempty (run reqs aws_services)"
  by (rule run_invariant) (simp_all add: seed_fields_nonempty handle_fields_nonempty)

subsection \<open>The duplicate guard\<close>

lemma add_service_conflict:
  assumes "nm \<noteq> []" and "cat \<noteq> []" and "\<exists>s\<in>set rs. same_pair nm cat s"
  shows "add_service nm cat rs =
    (Inl (conflict ''Service with same name and category already exists (case-insensitive)''), rs)"
proof -
  from assms(3) have "(lower nm, lower cat) \<in> set (map (\<lambda>s. (lower (name s), lower (category s))) rs)"
    by (force simp: same_pair_def)
  with assms(1,2) show ?thesis
    by (simp add: add_service_def)
qed

section \<open>The claims\<close>

text \<open>
  In the statements below \<open>bad_request\<close> (status 400) is the failure InvalidInput of
  the specification, \<open>conflict\<close> (status 409) is Conflict and \<open>not_found\<close> (status 404)
  is NotFound.
\<close>

text \<open>
  Claim C1, as amended. For every registry and every pair of optional filters,
  \<^verbatim>\<open>get_services\<close> returns exactly the records, in registry order, whose name equals
  the name filter and whose category equals the category filter under case-insensitive
  comparison of the whole text, where a filter counts only if it is given and not the
  empty text: a filter given as the empty text restricts nothing. Both filters apply
  when both count, the call never fails and it leaves the registry as it is.
\<close>

theorem list_filters:
  "get_services nameFilter categoryFilter rs = list_spec (given nameFilter) (given categoryFilter) rs \<and>
   handle (List nameFilter categoryFilter) rs = (Inr (list_spec (given nameFilter) (given categoryFilter) rs), rs)"
  by (cases nameFilter; cases categoryFilter) (simp_all add: get_services_def list_spec_def given_def)

text \<open>The seed list filtered by the category \<^verbatim>\<open>compute\<close>.\<close>

theorem list_filters_witness:
  "get_services None (Some ''compute'') aws_services =
     [\<lparr>name = ''Lambda'', category = ''Compute''\<rparr>, \<lparr>name = ''EC2'', category = ''Compute''\<rparr>] \<and>
   list_spec (given None) (given (Some ''compute'')) aws_services =
     [\<lparr>name = ''Lambda'', category = ''Compute''\<rparr>, \<lparr>name = ''EC2'', category = ''Compute''\<rparr>]"
proof -
  have "list_spec (given None) (given (Some ''compute'')) aws_services =
     [\<lparr>name = ''Lambda'', category = ''Compute''\<rparr>, \<lparr>name = ''EC2'', category = ''Compute''\<rparr>]"
    by code_simp
  with list_filters [of None "Some ''compute''" aws_services] show ?thesis
    by simp
qed

text \<open>
  The listing as the specification words it differs from \<^verbatim>\<open>get_services\<close> for a name
  filter that is given as the empty text: on the seed list the handler returns all five
  records, and no record has the empty name.
\<close>

theorem list_empty_filter_counterexample:
  "get_services (Some '''') None aws_services \<noteq> list_spec (Some '''') None aws_services"
  by code_simp

text \<open>
  Claim C2. For every registry and every pair of non-empty texts \<open>(nm, cat)\<close> such that
  no record of the registry has the same pair case-insensitively and \<open>nm\<close> is not
  digits-only, \<^verbatim>\<open>add_service\<close> succeeds: the registry afterwards is the old one, unchanged
  and in its order, followed by the one new record, the reply is that whole registry,
  and the pair occurs in it exactly once, both case-insensitively and literally.
\<close>

theorem add_service_appends:
  assumes "nm \<noteq> []" and "cat \<noteq> []"
    and "\<not> (\<exists>s\<in>set rs. same_pair nm cat s)"
    and "\<not> isdigit nm"
  shows "add_service nm cat rs =
           (Inr (rs @ [\<lparr>name = nm, category = cat\<rparr>]), rs @ [\<lparr>name = nm, category = cat\<rparr>]) \<and>
         length (filter (same_pair nm cat) (rs @ [\<lparr>name = nm, category = cat\<rparr>])) = 1 \<and>
         count_list (rs @ [\<lparr>name = nm, category = cat\<rparr>]) \<lparr>name = nm, category = cat\<rparr> = 1"
proof -
  from assms(3) have notin: "(lower nm, lower cat) \<notin> set (map (\<lambda>s. (lower (name s), lower (category s))) rs)"
    by (auto simp: same_pair_def)
  with assms(1,2,4) have "add_service nm cat rs =
      (Inr (rs @ [\<lparr>name = nm, category = cat\<rparr>]), rs @ [\<lparr>name = nm, category = cat\<rparr>])"
    by (simp add: add_service_def Let_def)
  moreover from assms(3) have none: "filter (same_pair nm cat) rs = []"
    by (simp add: filter_empty_conv)
  then have "length (filter (same_pair nm cat) (rs @ [\<lparr>name = nm, category = cat\<rparr>])) = 1"
    by (simp add: same_pair_def)
  moreover have "\<lparr>name = nm, category = cat\<rparr> \<notin> set rs"
  proof
    assume "\<lparr>name = nm, category = cat\<rparr> \<in> set rs"
    with assms(3) have "\<not> same_pair nm cat \<lparr>name = nm, category = cat\<rparr>" by blast
    then show False by (simp add: same_pair_def)
  qed
  then have "count_list (rs @ [\<lparr>name = nm, category = cat\<rparr>]) \<lparr>name = nm, category = cat\<rparr> = 1"
    by (simp add: count_list_0_iff)
  ultimately show ?thesis by blast
qed

text \<open>Adding Redshift/Database to the seed list.\<close>

theorem add_service_appends_witness:
  "''Redshift'' \<noteq> [] \<and> ''Database'' \<noteq> [] \<and>
   \<not> (\<exists>s\<in>set aws_services. same_pair ''Redshift'' ''Database'' s) \<and>
   \<not> isdigit ''Redshift'' \<and>
   add_service ''Redshift'' ''Database'' aws_services =
     (Inr (aws_services @ [\<lparr>name = ''Redshift'', category = ''Database''\<rparr>]),
      aws_services @ [\<lparr>name = ''Redshift'', category = ''Database''\<rparr>]) \<and>
   length (filter (same_pair ''Redshift'' ''Database'')
     (aws_services @ [\<lparr>name = ''Redshift'', category = ''Database''\<rparr>])) = 1"
proof -
  have h1: "''Redshift'' \<noteq> []" and h2: "''Database'' \<noteq> []"
    by simp_all
  have h3: "\<not> (\<exists>s\<in>set aws_services. same_pair ''Redshift'' ''Database'' s)"
    by code_simp
  have h4: "\<not> isdigit ''Redshift''"
    by code_simp
  from add_service_appends [OF h1 h2 h3 h4] h3 h4 show ?thesis
    by simp
qed

text \<open>
  Claim C3. After any sequence of requests served from the seed list, no two records at
  different positions of the registry have the same (name, category) pair under
  case-insensitive comparison.
\<close>

theorem registry_pairs_unique:
  assumes "i < length (run reqs aws_services)" and "j < length (run reqs aws_services)" and "i \<noteq> j"
  shows "pair_key (run reqs aws_services ! i) \<noteq> pair_key (run reqs aws_services ! j)"
proof -
  have "distinct (map pair_key (run reqs aws_services))"
    by (rule run_distinct)
  with assms show ?thesis
    by (simp add: distinct_conv_nth)
qed

text \<open>
  The scenario of the specification: Redshift is added, its lower-case twin is refused,
  EC2 is removed; the last two records of the five that remain differ.
\<close>

theorem registry_pairs_unique_witness:
  "(3::nat) < length (run [Add ''Redshift'' ''Database'', Add ''redshift'' ''database'', RemoveByName ''ec2'']
      aws_services) \<and>
   (4::nat) < length (run [Add ''Redshift'' ''Database'', Add ''redshift'' ''database'', RemoveByName ''ec2'']
      aws_services) \<and>
   (3::nat) \<noteq> 4 \<and>
   pair_key (run [Add ''Redshift'' ''Database'', Add ''redshift'' ''database'', RemoveByName ''ec2'']
      aws_services ! 3) \<noteq>
   pair_key (run [Add ''Redshift'' ''Database'', Add ''redshift'' ''database'', RemoveByName ''ec2'']
      aws_services ! 4)"
proof -
  let ?rs = "run [Add ''Redshift'' ''Database'', Add ''redshift'' ''database'', RemoveByName ''ec2'']
      aws_services"
  have h1: "3 < length ?rs" and h2: "4 < length ?rs"
    by code_simp+
  have h3: "(3::nat) \<noteq> 4"
    by simp
  from registry_pairs_unique [OF h1 h2 h3] h1 h2 show ?thesis
    by simp
qed


text \<open>
  Claim C4. For every registry whose records have non-empty fields, as the data model
  requires and as every registry reached from the seed list has (\<open>run_fields_nonempty\<close>),
  \<^verbatim>\<open>add_service\<close> with a pair that equals case-insensitively the pair of a record of
  the registry fails with Conflict and leaves the registry unchanged.
\<close>

theorem add_service_duplicate_conflict:
  assumes "fields_nonempty rs" and "\<exists>s\<in>set rs. same_pair nm cat s"
  shows "add_service nm cat rs =
    (Inl (conflict ''Service with same name and category already exists (case-insensitive)''), rs)"
proof -
  from assms(2) obtain s where s: "s \<in> set rs" "lower (name s) = lower nm" "lower (category s) = lower cat"
    by (auto simp: same_pair_def)
  from assms(1) s(1) have "name s \<noteq> []" and "category s \<noteq> []"
    by (simp_all add: fields_nonempty_def list_all_iff)
  with s(2,3) have "nm \<noteq> []" and "cat \<noteq> []"
    by (auto simp: lower_def)
  then show ?thesis
    using assms(2) by (rule add_service_conflict)
qed

text \<open>DynamoDB/Database of the seed list, in another spelling.\<close>

theorem add_service_duplicate_conflict_witness:
  "fields_nonempty aws_services \<and> (\<exists>s\<in>set aws_services. same_pair ''dynamodb'' ''DATABASE'' s) \<and>
   add_service ''dynamodb'' ''DATABASE'' aws_services =
    (Inl (conflict ''Service with same name and category already exists (case-insensitive)''), aws_services)"
proof -
  have h1: "fields_nonempty aws_services"
    by code_simp
  have h2: "\<exists>s\<in>set aws_services. same_pair ''dynamodb'' ''DATABASE'' s"
    by code_simp
  from add_service_duplicate_conflict [OF h1 h2] h1 h2 show ?thesis
    by simp
qed

text \<open>
  Claim C5. For every registry that holds no record with a digits-only name, as the
  data model requires and as every registry reached from the seed list has
  (\<open>run_no_numeric\<close>), \<^verbatim>\<open>add_service\<close> with a non-empty digits-only name fails with
  InvalidInput, whatever the category, and leaves the registry unchanged.
\<close>

theorem add_service_numeric_name:
  assumes "no_numeric_name rs" and "isdigit nm"
  shows "\<exists>detail. add_service nm cat rs = (Inl (bad_request detail), rs)"
proof (cases "cat = []")
  case True
  then show ?thesis
    by (auto simp: add_service_def)
next
  case False
  from assms(2) have nm: "nm \<noteq> []"
    by (simp add: isdigit_def)
  have "(lower nm, lower cat) \<notin> set (map (\<lambda>s. (lower (name s), lower (category s))) rs)"
  proof
    assume "(lower nm, lower cat) \<in> set (map (\<lambda>s. (lower (name s), lower (category s))) rs)"
    then obtain s where s: "s \<in> set rs" "lower (name s) = lower nm"
      by auto
    from assms(2) s(2) have "isdigit (name s)"
      by (rule isdigit_same_lower)
    with assms(1) s(1) show False
      by (simp add: no_numeric_name_def list_all_iff)
  qed
  with False nm assms(2) show ?thesis
    by (auto simp: add_service_def)
qed

text \<open>The name \<^verbatim>\<open>123\<close> on the seed list.\<close>

theorem add_service_numeric_name_witness:
  "no_numeric_name aws_services \<and> isdigit ''123'' \<and>
   (\<exists>detail. add_service ''123'' ''Storage'' aws_services = (Inl (bad_request detail), aws_services))"
proof -
  have h1: "no_numeric_name aws_services"
    by code_simp
  have h2: "isdigit ''123''"
    by code_simp
  from add_service_numeric_name [OF h1 h2, of "''Storage''"] h1 h2 show ?thesis
    by simp
qed

text \<open>
  Claim C6. For every registry and every name, \<^verbatim>\<open>delete_service\<close> fails with NotFound
  if and only if no record has that name case-insensitively; otherwise the registry
  splits into the records before the first match, none of which matches, the first
  match, and the records after it, and the call leaves and returns the records before
  followed by the records after.
\<close>

theorem delete_service_first_match:
  "(fst (delete_service nm rs) = Inl (not_found ''Service not found'') \<longleftrightarrow>
      (\<forall>s\<in>set rs. lower (name s) \<noteq> lower nm)) \<and>
   ((\<exists>s\<in>set rs. lower (name s) = lower nm) \<longrightarrow>
      (\<exists>pre s post. rs = pre @ s # post \<and> (\<forall>t\<in>set pre. lower (name t) \<noteq> lower nm) \<and>
         lower (name s) = lower nm \<and>
         delete_service nm rs = (Inr (pre @ post), pre @ post)))"
  using removal_body [where p = "\<lambda>s. lower (name s) = lower nm" and rs = rs
      and e = "not_found ''Service not found''"]
  unfolding delete_service_def
  by (elim disjE conjE exE) (simp, (rule conjI, force, blast))

text \<open>Removing \<^verbatim>\<open>ec2\<close> from the seed list.\<close>

theorem delete_service_first_match_witness:
  "(\<exists>s\<in>set aws_services. lower (name s) = lower ''ec2'') \<and>
   delete_service ''ec2'' aws_services =
     (Inr [\<lparr>name = ''S3'', category = ''Storage''\<rparr>, \<lparr>name = ''Lambda'', category = ''Compute''\<rparr>,
           \<lparr>name = ''RDS'', category = ''Database''\<rparr>, \<lparr>name = ''DynamoDB'', category = ''Database''\<rparr>],
      [\<lparr>name = ''S3'', category = ''Storage''\<rparr>, \<lparr>name = ''Lambda'', category = ''Compute''\<rparr>,
       \<lparr>name = ''RDS'', category = ''Database''\<rparr>, \<lparr>name = ''DynamoDB'', category = ''Database''\<rparr>]) \<and>
   fst (delete_service ''ec2'' aws_services) \<noteq> Inl (not_found ''Service not found'')"
proof -
  have h: "\<exists>s\<in>set aws_services. lower (name s) = lower ''ec2''"
    by code_simp
  have v: "delete_service ''ec2'' aws_services =
     (Inr [\<lparr>name = ''S3'', category = ''Storage''\<rparr>, \<lparr>name = ''Lambda'', category = ''Compute''\<rparr>,
           \<lparr>name = ''RDS'', category = ''Database''\<rparr>, \<lparr>name = ''DynamoDB'', category = ''Database''\<rparr>],
      [\<lparr>name = ''S3'', category = ''Storage''\<rparr>, \<lparr>name = ''Lambda'', category = ''Compute''\<rparr>,
       \<lparr>name = ''RDS'', category = ''Database''\<rparr>, \<lparr>name = ''DynamoDB'', category = ''Database''\<rparr>])"
    by code_simp
  from delete_service_first_match [of "''ec2''" aws_services] h
  have "fst (delete_service ''ec2'' aws_services) \<noteq> Inl (not_found ''Service not found'')"
    by blast
  with h v show ?thesis
    by simp
qed


text \<open>
  Claim C7. For every registry and every (name, category), \<^verbatim>\<open>delete_service_exact\<close>
  fails with NotFound if and only if no record has that pair case-insensitively;
  otherwise the registry splits into the records before the first record with that
  pair, none of which has it, that record, and the records after it, and the call leaves
  and returns the records before followed by the records after.
\<close>

theorem delete_service_exact_first_match:
  "(fst (delete_service_exact nm cat rs) =
        Inl (not_found ''Service with specified name and category not found'') \<longleftrightarrow>
      (\<forall>s\<in>set rs. \<not> same_pair nm cat s)) \<and>
   ((\<exists>s\<in>set rs. same_pair nm cat s) \<longrightarrow>
      (\<exists>pre s post. rs = pre @ s # post \<and> (\<forall>t\<in>set pre. \<not> same_pair nm cat t) \<and>
         same_pair nm cat s \<and>
         delete_service_exact nm cat rs = (Inr (pre @ post), pre @ post)))"
  using removal_body [where p = "\<lambda>s. lower (name s) = lower nm \<and> lower (category s) = lower cat"
      and rs = rs and e = "not_found ''Service with specified name and category not found''"]
  unfolding delete_service_exact_def same_pair_def
  by (elim disjE conjE exE) (simp, (rule conjI, force, blast))

text \<open>Removing \<^verbatim>\<open>rds\<close> in the category \<^verbatim>\<open>DATABASE\<close> from the seed list.\<close>

theorem delete_service_exact_first_match_witness:
  "(\<exists>s\<in>set aws_services. same_pair ''rds'' ''DATABASE'' s) \<and>
   delete_service_exact ''rds'' ''DATABASE'' aws_services =
     (Inr [\<lparr>name = ''S3'', category = ''Storage''\<rparr>, \<lparr>name = ''Lambda'', category = ''Compute''\<rparr>,
           \<lparr>name = ''EC2'', category = ''Compute''\<rparr>, \<lparr>name = ''DynamoDB'', category = ''Database''\<rparr>],
      [\<lparr>name = ''S3'', category = ''Storage''\<rparr>, \<lparr>name = ''Lambda'', category = ''Compute''\<rparr>,
       \<lparr>name = ''EC2'', category = ''Compute''\<rparr>, \<lparr>name = ''DynamoDB'', category = ''Database''\<rparr>]) \<and>
   fst (delete_service_exact ''rds'' ''DATABASE'' aws_services) \<noteq>
     Inl (not_found ''Service with specified name and category not found'')"
proof -
  have h: "\<exists>s\<in>set aws_services. same_pair ''rds'' ''DATABASE'' s"
    by code_simp
  have v: "delete_service_exact ''rds'' ''DATABASE'' aws_services =
     (Inr [\<lparr>name = ''S3'', category = ''Storage''\<rparr>, \<lparr>name = ''Lambda'', category = ''Compute''\<rparr>,
           \<lparr>name = ''EC2'', category = ''Compute''\<rparr>, \<lparr>name = ''DynamoDB'', category = ''Database''\<rparr>],
      [\<lparr>name = ''S3'', category = ''Storage''\<rparr>, \<lparr>name = ''Lambda'', category = ''Compute''\<rparr>,
       \<lparr>name = ''EC2'', category = ''Compute''\<rparr>, \<lparr>name = ''DynamoDB'', category = ''Database''\<rparr>])"
    by code_simp
  from delete_service_exact_first_match [of "''rds''" "''DATABASE''" aws_services] h
  have "fst (delete_service_exact ''rds'' ''DATABASE'' aws_services) \<noteq>
     Inl (not_found ''Service with specified name and category not found'')"
    by blast
  with h v show ?thesis
    by simp
qed

text \<open>
  Claim C8. For every registry and every request, if the reply is an exception (an
  addition refused as InvalidInput or Conflict, a removal refused as NotFound), the
  registry after the call is the registry before it.
\<close>

theorem failed_request_keeps_registry:
  assumes "fst (handle r rs) = Inl e"
  shows "snd (handle r rs) = rs"
proof (cases r)
  case (List n c)
  then show ?thesis by simp
next
  case (Add nm cat)
  with assms show ?thesis
    by (simp add: add_service_def Let_def split: if_splits)
next
  case (RemoveByName nm)
  from removal_body [where p = "\<lambda>s. lower (name s) = lower nm" and rs = rs
      and e = "not_found ''Service not found''"] assms
  show ?thesis unfolding RemoveByName handle.simps delete_service_def
    by (elim disjE conjE exE) simp_all
next
  case (RemoveByNameAndCategory nm cat)
  from removal_body [where p = "\<lambda>s. lower (name s) = lower nm \<and> lower (category s) = lower cat"
      and rs = rs and e = "not_found ''Service with specified name and category not found''"] assms
  show ?thesis unfolding RemoveByNameAndCategory handle.simps delete_service_exact_def
    by (elim disjE conjE exE) simp_all
qed

text \<open>A removal by a name that the seed list does not hold.\<close>

theorem failed_request_keeps_registry_witness:
  "fst (handle (RemoveByName ''Glue'') aws_services) = Inl (not_found ''Service not found'') \<and>
   snd (handle (RemoveByName ''Glue'') aws_services) = aws_services"
proof -
  have h: "fst (handle (RemoveByName ''Glue'') aws_services) = Inl (not_found ''Service not found'')"
    by code_simp
  from failed_request_keeps_registry [OF h] h show ?thesis
    by simp
qed

text \<open>
  Claim C9. After any sequence of requests served from the seed list, no record of the
  registry has a purely numeric name: its name is empty or has a character that is not
  a digit.
\<close>

theorem registry_names_not_numeric:
  assumes "s \<in> set (run reqs aws_services)"
  shows "\<not> isdigit (name s) \<and> (name s = [] \<or> (\<exists>c\<in>set (name s). \<not> digit_char c))"
proof -
  have "no_numeric_name (run reqs aws_services)"
    by (rule run_no_numeric)
  with assms have "\<not> isdigit (name s)"
    by (simp add: no_numeric_name_def list_all_iff)
  then show ?thesis
    by (auto simp: isdigit_def list_all_iff)
qed

text \<open>A run that tries to add the name \<^verbatim>\<open>42\<close> and removes Lambda.\<close>

theorem registry_names_not_numeric_witness:
  "\<lparr>name = ''S3'', category = ''Storage''\<rparr> \<in> set (run [Add ''42'' ''Numbers'', RemoveByName ''lambda''] aws_services) \<and>
   \<not> isdigit (name \<lparr>name = ''S3'', category = ''Storage''\<rparr>)"
proof -
  have h: "\<lparr>name = ''S3'', category = ''Storage''\<rparr> \<in> set (run [Add ''42'' ''Numbers'', RemoveByName ''lambda''] aws_services)"
    by code_simp
  from registry_names_not_numeric [OF h] h show ?thesis
    by simp
qed

text \<open>
  Claim C10. For every list of records and non-empty texts \<open>(nm, cat)\<close> such that the
  pair equals case-insensitively the pair of a record of the list and \<open>nm\<close> is
  digits-only, \<^verbatim>\<open>add_service\<close> fails with Conflict and not with InvalidInput: the
  duplicate guard comes before the digits guard.
\<close>

theorem add_service_duplicate_before_numeric:
  assumes "nm \<noteq> []" and "cat \<noteq> []" and "\<exists>s\<in>set rs. same_pair nm cat s" and "isdigit nm"
  shows "fst (add_service nm cat rs) =
           Inl (conflict ''Service with same name and category already exists (case-insensitive)'') \<and>
         (\<forall>detail. fst (add_service nm cat rs) \<noteq> Inl (bad_request detail))"
  using add_service_conflict [OF assms(1-3)]
  by (simp add: conflict_def bad_request_def)

text \<open>
  A list that holds the record 123/Misc. No run from the seed list reaches such a list
  (\<open>run_no_numeric\<close>); the statement is about the order of the guards in the handler.
\<close>

theorem add_service_duplicate_before_numeric_witness:
  "''123'' \<noteq> [] \<and> ''misc'' \<noteq> [] \<and>
   (\<exists>s\<in>set [\<lparr>name = ''123'', category = ''Misc''\<rparr>]. same_pair ''123'' ''misc'' s) \<and>
   isdigit ''123'' \<and>
   fst (add_service ''123'' ''misc'' [\<lparr>name = ''123'', category = ''Misc''\<rparr>]) =
     Inl (conflict ''Service with same name and category already exists (case-insensitive)'')"
proof -
  have h1: "''123'' \<noteq> []" and h2: "''misc'' \<noteq> []"
    by simp_all
  have h3: "\<exists>s\<in>set [\<lparr>name = ''123'', category = ''Misc''\<rparr>]. same_pair ''123'' ''misc'' s"
    by code_simp
  have h4: "isdigit ''123''"
    by code_simp
  from add_service_duplicate_before_numeric [OF h1 h2 h3 h4] h3 h4 show ?thesis
    by simp
qed

end
